theory Spec2Isabelle
  imports Main "HOL-Library.Word"
begin

section \<open>The worker package: data model\<close>

text \<open>
  The package is one Go file, \<^verbatim>\<open>worker.go\<close>. A \<^verbatim>\<open>Worker\<close> polls an SQS queue
  (\<^verbatim>\<open>producer\<close>), hands every message to one of its \<^verbatim>\<open>consumer\<close> goroutines, which runs the
  user's \<^verbatim>\<open>Handler\<close> under a timeout (\<^verbatim>\<open>Exec\<close>), sends the result to the outbound queue
  (\<^verbatim>\<open>sendMessage\<close>) and deletes the message from the inbound queue (\<^verbatim>\<open>deleteMessage\<close>).

  Each goroutine is modelled by itself, as a function of what the world outside it does:
  the answers of SQS, which case of a \<^verbatim>\<open>select\<close> is ready first, whether the context is
  cancelled. Everything a goroutine does to the outside (a call to SQS, to the logger, to the
  callback, a send on the hand-off channel) is an event of its trace, in program order.
\<close>

subsection \<open>Integers, durations, errors\<close>

text \<open>
  Go's \<^verbatim>\<open>int\<close> is modelled at 64 bits (the platform of the repository's benchmark,
  \<^verbatim>\<open>goarch: amd64\<close>); \<^verbatim>\<open>time.Duration\<close> is an \<^verbatim>\<open>int64\<close> count of nanoseconds on every
  platform. Arithmetic on both wraps around; \<open>sint\<close> reads the signed value.
\<close>

type_synonym go_int = "64 word"
type_synonym Duration = "64 word"
type_synonym bytes = string

definition Second :: Duration where
  "Second = 1000000000"

definition DefaultTimeout :: go_int where
  "DefaultTimeout = 30"

definition DefaultWorkers :: go_int where
  "DefaultWorkers = 1"

definition MaxNumberOfMessages :: "64 word" where
  "MaxNumberOfMessages = 1"

definition VisibilityTimeout :: "64 word" where
  "VisibilityTimeout = 60"

definition WaitTimeSeconds :: "64 word" where
  "WaitTimeSeconds = 20"

text \<open>
  A Go \<^verbatim>\<open>error\<close> value: the package's own \<^verbatim>\<open>HandlerTimeout\<close>, or any other error
  (of the handler, of SQS), identified by its text. \<^verbatim>\<open>nil\<close> is \<open>None\<close> of \<open>error option\<close>.
\<close>

datatype error = HandlerTimeout | Failure string

text \<open>The two fields of \<^verbatim>\<open>sqs.Message\<close> that the package reads or that a handler is given.\<close>

record Message =
  Body :: string
  ReceiptHandle :: string

text \<open>
  \<^verbatim>\<open>Handler\<close> returns \<^verbatim>\<open>([]byte, error)\<close>; what it returns is taken to depend on the message
  only, how long it takes is for the world to decide. \<^verbatim>\<open>Callback\<close> returns nothing, but it
  is given the slice itself, not a copy: what its function yields here are the bytes of that
  slice when the call is over (a callback that only looks returns them as they were), since
  the consumer reads the slice again afterwards.
\<close>

type_synonym Handler = "Message \<Rightarrow> bytes \<times> error option"
type_synonym Callback = "bytes \<Rightarrow> error option \<Rightarrow> bytes"
type_synonym logger = string

text \<open>A Go channel used only as a signal (the field \<^verbatim>\<open>done\<close>, here \<open>done_chan\<close>): \<^verbatim>\<open>nil\<close>, open, or closed.\<close>

datatype chan_state = NilChan | OpenChan | ClosedChan

text \<open>
  \<^verbatim>\<open>Worker\<close>, without \<^verbatim>\<open>Queue\<close> and \<^verbatim>\<open>Session\<close>: the SQS client is the outside world here, its
  answers are inputs of the functions below. \<^verbatim>\<open>WorkerConfig\<close> has five fields of the same name
  as \<^verbatim>\<open>Worker\<close>; they carry the suffix \<open>_wc\<close>.
\<close>

record Worker =
  QueueInUrl :: string
  QueueOutUrl :: string
  Consumers :: go_int
  Logger :: "logger option"
  Handler :: Handler
  Callback :: "Callback option"
  Name :: string
  Timeout :: Duration
  done_chan :: chan_state

record WorkerConfig =
  QueueIn :: string
  QueueOut :: string
  Workers :: go_int
  Region :: string
  Handler_wc :: Handler
  Callback_wc :: "Callback option"
  Name_wc :: string
  Timeout_wc :: go_int
  Logger_wc :: "logger option"

subsection \<open>NewWorker and Close\<close>

text \<open>
  \<^verbatim>\<open>NewWorker\<close> reads two things from its environment: \<^verbatim>\<open>runtime.NumCPU()\<close> and the logger that
  \<^verbatim>\<open>zap.NewProduction()\<close> builds (\<^verbatim>\<open>nil\<close> when that fails; the error is dropped).
\<close>

record runtime =
  NumCPU :: go_int
  NewProduction :: "logger option"

definition NewWorker :: "runtime \<Rightarrow> WorkerConfig \<Rightarrow> Worker" where
  "NewWorker rt wc =
     (let timeout = (if Timeout_wc wc = 0 then DefaultTimeout else Timeout_wc wc);
          workers = (if Workers wc \<noteq> 0 then Workers wc else NumCPU rt);
          logger = (if Logger_wc wc = None then NewProduction rt else Logger_wc wc)
      in \<lparr>QueueInUrl = QueueIn wc,
          QueueOutUrl = QueueOut wc,
          Consumers = workers,
          Logger = logger,
          Handler = Handler_wc wc,
          Callback = Callback_wc wc,
          Name = Name_wc wc,
          Timeout = timeout * Second,
          done_chan = OpenChan\<rparr>)"

text \<open>
  \<^verbatim>\<open>Close\<close> is \<^verbatim>\<open>close(w.done)\<close>. Go panics on closing a closed channel and on closing a
  \<^verbatim>\<open>nil\<close> channel.
\<close>

datatype panic = CloseOfClosedChannel | CloseOfNilChannel

definition Close :: "Worker \<Rightarrow> panic + Worker" where
  "Close w =
     (case done_chan w of
        OpenChan \<Rightarrow> Inr (w\<lparr>done_chan := ClosedChan\<rparr>)
      | ClosedChan \<Rightarrow> Inl CloseOfClosedChannel
      | NilChan \<Rightarrow> Inl CloseOfNilChannel)"

subsection \<open>Traces\<close>

text \<open>
  What a goroutine does to the world outside it, one event per call, with the arguments the
  call is given: \<^verbatim>\<open>w.Callback(result, err)\<close>; \<^verbatim>\<open>w.Logger.Error\<close> with the fields \<^verbatim>\<open>app\<close>,
  \<^verbatim>\<open>msg\<close> and the error; \<^verbatim>\<open>w.Queue.SendMessage\<close> with \<^verbatim>\<open>QueueUrl\<close> and \<^verbatim>\<open>MessageBody\<close>;
  \<^verbatim>\<open>w.Queue.DeleteMessage\<close> with \<^verbatim>\<open>QueueUrl\<close> and \<^verbatim>\<open>ReceiptHandle\<close>;
  \<^verbatim>\<open>w.Queue.ReceiveMessageRequest\<close> and \<^verbatim>\<open>req.Send()\<close> with \<^verbatim>\<open>QueueUrl\<close>, \<^verbatim>\<open>MaxNumberOfMessages\<close>,
  \<^verbatim>\<open>VisibilityTimeout\<close> and \<^verbatim>\<open>WaitTimeSeconds\<close>; and a completed send \<^verbatim>\<open>out <- message\<close>.
\<close>

type_synonym SendMessageInput = "string \<times> bytes"
type_synonym DeleteMessageInput = "string \<times> string"
type_synonym ReceiveMessageInput = "string \<times> 64 word \<times> 64 word \<times> 64 word"

datatype event =
    CallbackCall bytes "error option"
  | LoggerError string string error
  | SendMessage SendMessageInput
  | DeleteMessage DeleteMessageInput
  | ReceiveMessage ReceiveMessageInput
  | ChanSend Message

text \<open>Where a loop stands at the end of what has been observed of it.\<close>

datatype status = Returned | Running | Blocked

definition LogError :: "Worker \<Rightarrow> string \<Rightarrow> error \<Rightarrow> event list" where
  "LogError w msg err = (if Logger w \<noteq> None then [LoggerError (Name w) msg err] else [])"

text \<open>
  \<^verbatim>\<open>deleteMessage\<close> and \<^verbatim>\<open>sendMessage\<close>; the last argument is what SQS answers if it is asked.
\<close>

definition deleteMessage :: "Worker \<Rightarrow> DeleteMessageInput \<Rightarrow> error option \<Rightarrow> event list \<times> error option" where
  "deleteMessage w m answer = ([DeleteMessage m], answer)"

definition sendMessage :: "Worker \<Rightarrow> SendMessageInput \<Rightarrow> error option \<Rightarrow> event list \<times> error option" where
  "sendMessage w m answer =
     (if QueueOutUrl w = [] then ([], None) else ([SendMessage m], answer))"

subsection \<open>Exec: the handler under a timeout\<close>

text \<open>
  A \<^verbatim>\<open>time.Timer\<close> as \<^verbatim>\<open>Exec\<close> can find it: \<open>Armed\<close>, running and not yet expired;
  \<open>Fired\<close>, expired with its tick still in the channel \<^verbatim>\<open>Timer.C\<close>; \<open>Drained\<close>, expired and
  the tick already received. \<^verbatim>\<open>Stop()\<close> reports \<^verbatim>\<open>true\<close> when it stops a running timer and
  \<^verbatim>\<open>false\<close> when the timer has expired already; a receive from \<^verbatim>\<open>Timer.C\<close> gets through when
  a tick is in the channel; \<^verbatim>\<open>Reset\<close> arms the timer again.
\<close>

datatype timer = Armed | Fired | Drained

definition Stop :: "timer \<Rightarrow> bool" where
  "Stop t = (t = Armed)"

definition tick_waiting :: "timer \<Rightarrow> bool" where
  "tick_waiting t = (t = Fired)"

text \<open>Whether \<^verbatim>\<open>if !hp.Timer.Stop() { <-hp.Timer.C }\<close> gets through.\<close>

definition stop_and_drain :: "timer \<Rightarrow> bool" where
  "stop_and_drain t = (Stop t \<or> tick_waiting t)"

record consumerDone =
  Result :: bytes
  Err :: "error option"

text \<open>
  \<^verbatim>\<open>handlerParams\<close>. The channel \<^verbatim>\<open>Done\<close> has no buffer, so its state is the goroutines that
  calls of \<^verbatim>\<open>Exec\<close> started and that have not handed over their outcome yet, each with the
  outcome of its handler: it is still in the handler, or it has stored the outcome and waits
  in \<^verbatim>\<open>hp.Done <- hp.Result\<close>. The field \<^verbatim>\<open>Result\<close> (here \<open>Result_hp\<close>) is the one
  \<^verbatim>\<open>consumerDone\<close> that all of them write.
\<close>

record handlerParams =
  Done :: "consumerDone list"
  Result_hp :: consumerDone
  Timer :: timer

definition getHandlerParams :: "Worker \<Rightarrow> handlerParams" where
  "getHandlerParams w = \<lparr>Done = [], Result_hp = \<lparr>Result = [], Err = None\<rparr>, Timer = Armed\<rparr>"

text \<open>
  Goroutine number \<open>k\<close> on \<^verbatim>\<open>Done\<close> is through with its handler:
  \<^verbatim>\<open>hp.Result.Result = result; hp.Result.Err = err\<close>.
\<close>

definition store :: "nat \<Rightarrow> handlerParams \<Rightarrow> handlerParams" where
  "store k hp = (if k < length (Done hp) then hp\<lparr>Result_hp := Done hp ! k\<rparr> else hp)"

text \<open>
  Which case of the \<^verbatim>\<open>select\<close> in \<^verbatim>\<open>Exec\<close> is ready first: \<open>DoneReady i\<close>, a goroutine
  delivers on \<^verbatim>\<open>Done\<close> (number \<open>i\<close> of those left over from earlier calls; the one this call
  started when \<open>i\<close> is past them), or \<open>TimerReady\<close>, the timer's tick.
\<close>

datatype ready = DoneReady nat | TimerReady

text \<open>
  \<^verbatim>\<open>Exec\<close>. \<open>None\<close>: the call never returns. That is the receive \<^verbatim>\<open><-hp.Timer.C\<close> after
  \<^verbatim>\<open>Stop()\<close> reported \<^verbatim>\<open>false\<close> on a timer whose tick has been received already. Otherwise the
  timer is armed again and a goroutine for this message joins those on \<^verbatim>\<open>Done\<close>. The goroutine
  that delivers has stored its outcome in \<^verbatim>\<open>hp.Result\<close> and sent that pointer; \<^verbatim>\<open>Exec\<close> returns
  the two fields read through it, and the timer goes on running. On the timer's case the tick
  is received and the goroutine just started stays behind.
\<close>

definition Exec :: "Worker \<Rightarrow> handlerParams \<Rightarrow> ready \<Rightarrow> Message \<Rightarrow> ((bytes \<times> error option) \<times> handlerParams) option" where
  "Exec w hp r m =
     (if \<not> stop_and_drain (Timer hp) then None
      else
        let own = Handler w m;
            senders = Done hp @ [\<lparr>Result = fst own, Err = snd own\<rparr>]
        in case r of
             DoneReady i \<Rightarrow>
               let k = min i (length (Done hp));
                   stored = store k (hp\<lparr>Done := senders\<rparr>);
                   result = Result_hp stored
               in Some ((Result result, Err result),
                        stored\<lparr>Done := take k senders @ drop (Suc k) senders, Timer := Armed\<rparr>)
           | TimerReady \<Rightarrow>
               Some (([], Some HandlerTimeout), hp\<lparr>Done := senders, Timer := Drained\<rparr>))"

subsection \<open>consumer\<close>

text \<open>
  One message as a consumer receives it from the channel \<^verbatim>\<open>in\<close>, with what the world does
  while the consumer waits for it and deals with it: which of the goroutines left on \<^verbatim>\<open>Done\<close>
  got through with their handlers meanwhile (by number, in that order), whether the timer ran
  out meanwhile, which case of the \<^verbatim>\<open>select\<close> in \<^verbatim>\<open>Exec\<close> is ready first, and the answers of SQS
  to \<^verbatim>\<open>SendMessage\<close> and \<^verbatim>\<open>DeleteMessage\<close>.
\<close>

record delivery =
  msg :: Message
  late :: "nat list"
  expired :: bool
  first_ready :: ready
  send_answer :: "error option"
  delete_answer :: "error option"

definition expire :: "bool \<Rightarrow> handlerParams \<Rightarrow> handlerParams" where
  "expire b hp = (if b \<and> Timer hp = Armed then hp\<lparr>Timer := Fired\<rparr> else hp)"

definition meanwhile :: "delivery \<Rightarrow> handlerParams \<Rightarrow> handlerParams" where
  "meanwhile d hp = expire (expired d) (fold store (late d) hp)"

text \<open>
  The body of the loop of \<^verbatim>\<open>consumer\<close>, the case \<^verbatim>\<open>msg := <-in\<close>: the events of this
  message and the \<^verbatim>\<open>handlerParams\<close> afterwards; \<open>None\<close> when \<^verbatim>\<open>Exec\<close> never returns. Every
  \<^verbatim>\<open>continue\<close> of the source is a \<open>Some\<close> here.
\<close>

definition consume :: "Worker \<Rightarrow> handlerParams \<Rightarrow> delivery \<Rightarrow> (event list \<times> handlerParams) option" where
  "consume w hp d =
     (case Exec w (meanwhile d hp) (first_ready d) (msg d) of
        None \<Rightarrow> None
      | Some ((result, err), hp') \<Rightarrow>
          (let (called, result') =
                 (case Callback w of
                    None \<Rightarrow> ([], result)
                  | Some f \<Rightarrow> ([CallbackCall result err], f result err))
           in (case err of
                 Some e \<Rightarrow> Some (called @ LogError w ''handler failed!'' e, hp')
               | None \<Rightarrow>
                   (let (sent, err1) = sendMessage w (QueueOutUrl w, result') (send_answer d)
                    in (case err1 of
                          Some e \<Rightarrow> Some (called @ sent @ LogError w ''send message failed!'' e, hp')
                        | None \<Rightarrow>
                            (let (deleted, err2) =
                                   deleteMessage w (QueueInUrl w, ReceiptHandle (msg d)) (delete_answer d)
                             in (case err2 of
                                   Some e \<Rightarrow>
                                     Some (called @ sent @ deleted @ LogError w ''delete message failed!'' e, hp')
                                 | None \<Rightarrow> Some (called @ sent @ deleted, hp'))))))))"

text \<open>
  The loop of \<^verbatim>\<open>consumer\<close> over what its outer \<^verbatim>\<open>select\<close> yields, turn by turn: the context
  is done, or a message arrives (a message, not the \<^verbatim>\<open>nil\<close> that a closed channel yields).
  The result is the trace, where the loop stands, and the \<^verbatim>\<open>handlerParams\<close> at that point.
\<close>

datatype step = CtxDone | Receive delivery

fun consumer_loop :: "Worker \<Rightarrow> handlerParams \<Rightarrow> step list \<Rightarrow> event list \<times> status \<times> handlerParams" where
  "consumer_loop w hp [] = ([], Running, hp)"
| "consumer_loop w hp (CtxDone # rest) = ([], Returned, hp)"
| "consumer_loop w hp (Receive d # rest) =
     (case consume w hp d of
        None \<Rightarrow> ([], Blocked, meanwhile d hp)
      | Some (events, hp') \<Rightarrow>
          (case consumer_loop w hp' rest of (trace, st, hp'') \<Rightarrow> (events @ trace, st, hp'')))"

definition consumer :: "Worker \<Rightarrow> step list \<Rightarrow> event list \<times> status \<times> handlerParams" where
  "consumer w steps = consumer_loop w (getHandlerParams w) steps"

subsection \<open>producer\<close>

text \<open>
  One turn of the loop of \<^verbatim>\<open>producer\<close> as the world decides it: whether the context is
  done, what \<^verbatim>\<open>req.Send()\<close> yields (an error, or the messages of the response), and how many
  sends on \<^verbatim>\<open>out\<close> get through (the channel holds ten messages and the consumers may have
  stopped receiving).
\<close>

record poll =
  ctx_done :: bool
  response :: "error + Message list"
  room :: nat

definition receive_params :: "Worker \<Rightarrow> ReceiveMessageInput" where
  "receive_params w = (QueueInUrl w, MaxNumberOfMessages, VisibilityTimeout, WaitTimeSeconds)"

text \<open>
  The \<^verbatim>\<open>default\<close> case of the \<^verbatim>\<open>select\<close>: the events of one fetch, and whether the loop goes
  on (\<open>False\<close>: a send on \<^verbatim>\<open>out\<close> does not get through).
\<close>

definition fetch :: "Worker \<Rightarrow> poll \<Rightarrow> event list \<times> bool" where
  "fetch w p =
     (case response p of
        Inl err \<Rightarrow> (ReceiveMessage (receive_params w) # LogError w ''recieve messages failed!'' err, True)
      | Inr messages \<Rightarrow>
          (ReceiveMessage (receive_params w) # map ChanSend (take (room p) messages),
           length messages \<le> room p))"

fun producer :: "Worker \<Rightarrow> poll list \<Rightarrow> event list \<times> status" where
  "producer w [] = ([], Running)"
| "producer w (p # ps) =
     (if ctx_done p then ([], Returned)
      else case fetch w p of
             (events, False) \<Rightarrow> (events, Blocked)
           | (events, True) \<Rightarrow> (case producer w ps of (trace, st) \<Rightarrow> (events @ trace, st)))"

subsection \<open>Reading a trace\<close>

text \<open>
  The calls of one kind in a trace, in order, each with its arguments: the inputs of
  \<^verbatim>\<open>SendMessage\<close>, those of \<^verbatim>\<open>DeleteMessage\<close>, the arguments of the callback, the entries
  written to the logger, the inputs of the receive requests, the messages put on \<^verbatim>\<open>out\<close>.
\<close>

fun forwards :: "event \<Rightarrow> SendMessageInput list" where
  "forwards (SendMessage i) = [i]"
| "forwards _ = []"

fun acknowledges :: "event \<Rightarrow> DeleteMessageInput list" where
  "acknowledges (DeleteMessage i) = [i]"
| "acknowledges _ = []"

fun callback_calls :: "event \<Rightarrow> (bytes \<times> error option) list" where
  "callback_calls (CallbackCall r e) = [(r, e)]"
| "callback_calls _ = []"

fun log_entries :: "event \<Rightarrow> (string \<times> string \<times> error) list" where
  "log_entries (LoggerError a m e) = [(a, m, e)]"
| "log_entries _ = []"

fun receives :: "event \<Rightarrow> ReceiveMessageInput list" where
  "receives (ReceiveMessage i) = [i]"
| "receives _ = []"

fun chan_sends :: "event \<Rightarrow> Message list" where
  "chan_sends (ChanSend m) = [m]"
| "chan_sends _ = []"

definition forwarded :: "event list \<Rightarrow> SendMessageInput list" where
  "forwarded tr = concat (map forwards tr)"

definition acknowledged :: "event list \<Rightarrow> DeleteMessageInput list" where
  "acknowledged tr = concat (map acknowledges tr)"

definition called_back :: "event list \<Rightarrow> (bytes \<times> error option) list" where
  "called_back tr = concat (map callback_calls tr)"

definition logged :: "event list \<Rightarrow> (string \<times> string \<times> error) list" where
  "logged tr = concat (map log_entries tr)"

definition requested :: "event list \<Rightarrow> ReceiveMessageInput list" where
  "requested tr = concat (map receives tr)"

definition pushed :: "event list \<Rightarrow> Message list" where
  "pushed tr = concat (map chan_sends tr)"

text \<open>
  The two effects of \<^verbatim>\<open>if w.Callback != nil { w.Callback(result, err) }\<close>: its event, and
  the bytes of \<^verbatim>\<open>result\<close> afterwards.
\<close>

definition callback_events :: "Worker \<Rightarrow> bytes \<Rightarrow> error option \<Rightarrow> event list" where
  "callback_events w result err =
     (case Callback w of None \<Rightarrow> [] | Some f \<Rightarrow> [CallbackCall result err])"

definition after_callback :: "Worker \<Rightarrow> bytes \<Rightarrow> error option \<Rightarrow> bytes" where
  "after_callback w result err = (case Callback w of None \<Rightarrow> result | Some f \<Rightarrow> f result err)"

text \<open>
  SQS answers a \<^verbatim>\<open>SendMessage\<close> by what it is sent. A delivery holds the one answer that
  the consumer gets; \<open>answered_by sqs w hp d\<close> is the delivery \<open>d\<close> with, for that answer,
  the one that the rule \<open>sqs\<close> gives to the body this consumer sends: what \<^verbatim>\<open>Exec\<close> returned,
  after the callback had it.
\<close>

definition answered_by :: "(bytes \<Rightarrow> error option) \<Rightarrow> Worker \<Rightarrow> handlerParams \<Rightarrow> delivery \<Rightarrow> delivery" where
  "answered_by sqs w hp d =
     (case Exec w (meanwhile d hp) (first_ready d) (msg d) of
        None \<Rightarrow> d
      | Some ((result, err), hp') \<Rightarrow> d\<lparr>send_answer := sqs (after_callback w result err)\<rparr>)"

subsection \<open>Sample inputs\<close>

text \<open>
  A machine with four CPUs, a configuration with both queues and a timeout of one second,
  a handler that returns the body of its message and one that returns an error, a callback
  that overwrites the slice it is given and one that leaves it as it is, an SQS that turns
  the body \<open>x\<close> down, and two messages with the receipt handles \<open>T1\<close> and \<open>T2\<close>.
\<close>

definition sample_runtime :: runtime where
  "sample_runtime = \<lparr>NumCPU = 4, NewProduction = Some ''production''\<rparr>"

definition echo :: Handler where
  "echo m = (Body m, None)"


definition refuse :: Handler where
  "refuse m = ([], Some (Failure ''refused''))"



definition sample_config :: WorkerConfig where
  "sample_config =
     \<lparr>QueueIn = ''https://sqs/in'', QueueOut = ''https://sqs/out'', Workers = 0,
      Region = ''us-east-1'', Handler_wc = echo, Callback_wc = None, Name_wc = ''TestApp'',
      Timeout_wc = 1, Logger_wc = None\<rparr>"

definition sample_worker :: Worker where
  "sample_worker = NewWorker sample_runtime sample_config"

definition message_T1 :: Message where
  "message_T1 = \<lparr>Body = ''a'', ReceiptHandle = ''T1''\<rparr>"

definition message_T2 :: Message where
  "message_T2 = \<lparr>Body = ''b'', ReceiptHandle = ''T2''\<rparr>"

text \<open>A delivery where the handler is in time and SQS accepts both calls.\<close>

definition delivered :: "Message \<Rightarrow> delivery" where
  "delivered m =
     \<lparr>msg = m, late = [], expired = False, first_ready = DoneReady 0, send_answer = None,
      delete_answer = None\<rparr>"

text \<open>A fetch that fails, and a turn of the producer's loop that finds the context done.\<close>

definition failed_poll :: "string \<Rightarrow> poll" where
  "failed_poll reason = \<lparr>ctx_done = False, response = Inl (Failure reason), room = 10\<rparr>"

definition answered_poll :: "Message list \<Rightarrow> poll" where
  "answered_poll ms = \<lparr>ctx_done = False, response = Inr ms, room = 10\<rparr>"

definition cancelled_poll :: poll where
  "cancelled_poll = \<lparr>ctx_done = True, response = Inr [], room = 10\<rparr>"

section \<open>Construction and shutdown\<close>

text \<open>
  C6. \<^verbatim>\<open>NewWorker\<close> applies the documented defaults: with \<^verbatim>\<open>Workers\<close> zero the consumer count
  is \<^verbatim>\<open>runtime.NumCPU()\<close>, otherwise it is \<^verbatim>\<open>Workers\<close>; with \<^verbatim>\<open>Timeout\<close> zero the timeout is
  30 seconds (30 000 000 000 nanoseconds), otherwise it is the product of \<^verbatim>\<open>Timeout\<close> and
  \<^verbatim>\<open>time.Second\<close>.
\<close>

theorem NewWorker_defaults:
  "Consumers (NewWorker rt wc) = (if Workers wc = 0 then NumCPU rt else Workers wc) \<and>
   (Timeout_wc wc = 0 \<longrightarrow> sint (Timeout (NewWorker rt wc)) = 30 * 1000000000) \<and>
   (Timeout_wc wc \<noteq> 0 \<longrightarrow> Timeout (NewWorker rt wc) = Timeout_wc wc * Second)"
  by (simp add: NewWorker_def DefaultTimeout_def Second_def)

theorem NewWorker_defaults_witness:
  "Consumers (NewWorker sample_runtime sample_config) = 4 \<and>
   Consumers (NewWorker sample_runtime (sample_config\<lparr>Workers := 2\<rparr>)) = 2 \<and>
   sint (Timeout (NewWorker sample_runtime (sample_config\<lparr>Timeout_wc := 0\<rparr>))) = 30000000000 \<and>
   Timeout (NewWorker sample_runtime (sample_config\<lparr>Timeout_wc := 5\<rparr>)) = 5 * Second"
  using NewWorker_defaults [of sample_runtime sample_config]
        NewWorker_defaults [of sample_runtime "sample_config\<lparr>Workers := 2\<rparr>"]
        NewWorker_defaults [of sample_runtime "sample_config\<lparr>Timeout_wc := 0\<rparr>"]
        NewWorker_defaults [of sample_runtime "sample_config\<lparr>Timeout_wc := 5\<rparr>"]
  by (simp add: sample_config_def sample_runtime_def)

text \<open>
  The product \<open>t * Second\<close> is taken in 64 bits. It is \<open>t\<close> seconds as long as
  \<open>t * 10\<^sup>9\<close> fits, that is for \<open>t\<close> between \<open>-9223372036\<close> and \<open>9223372036\<close>.
\<close>

lemma sint_times_Second:
  fixes t :: "64 word"
  assumes "- 9223372036 \<le> sint t" and "sint t \<le> 9223372036"
  shows "sint (t * Second) = sint t * 1000000000"
proof -
  have "sint (t * 1000000000) = signed_take_bit 63 (sint t * sint (1000000000 :: 64 word))"
    by (simp add: sint_word_ariths)
  also have "sint (1000000000 :: 64 word) = 1000000000"
    by simp
  also have "signed_take_bit 63 (sint t * 1000000000) = sint t * 1000000000"
    using assms by (simp add: signed_take_bit_int_eq_self_iff)
  finally show ?thesis
    by (simp add: Second_def)
qed

text \<open>
  C9, as stated, fails: a \<^verbatim>\<open>Timeout\<close> of 9223372037 (seconds) gives a \<^verbatim>\<open>Worker\<close> whose
  timeout is negative, since 9223372037 000 000 000 is more than an \<^verbatim>\<open>int64\<close> holds.
\<close>

theorem NewWorker_timeout_overflow:
  "Timeout_wc (sample_config\<lparr>Timeout_wc := 9223372037\<rparr>) \<noteq> 0 \<and>
   sint (Timeout (NewWorker sample_runtime (sample_config\<lparr>Timeout_wc := 9223372037\<rparr>)))
     = - 9223372036709551616 \<and>
   sint (Timeout (NewWorker sample_runtime (sample_config\<lparr>Timeout_wc := 9223372037\<rparr>)))
     \<noteq> sint (Timeout_wc (sample_config\<lparr>Timeout_wc := 9223372037\<rparr>)) * 1000000000"
  by (simp add: NewWorker_def sample_config_def Second_def)

text \<open>
  C9, amended. For every \<^verbatim>\<open>WorkerConfig\<close> whose \<^verbatim>\<open>Timeout\<close> \<open>t\<close> is not zero and lies between
  \<open>-9223372036\<close> and \<open>9223372036\<close>, the timeout of the \<^verbatim>\<open>Worker\<close> that \<^verbatim>\<open>NewWorker\<close> returns
  is \<open>t\<close> seconds, that is \<open>t * 10\<^sup>9\<close> nanoseconds.
\<close>

theorem NewWorker_timeout_seconds:
  assumes "Timeout_wc wc \<noteq> 0"
      and "- 9223372036 \<le> sint (Timeout_wc wc)" and "sint (Timeout_wc wc) \<le> 9223372036"
  shows "sint (Timeout (NewWorker rt wc)) = sint (Timeout_wc wc) * 1000000000"
  using assms sint_times_Second [of "Timeout_wc wc"]
  by (simp add: NewWorker_def)

theorem NewWorker_timeout_seconds_witness:
  "Timeout_wc (sample_config\<lparr>Timeout_wc := 9223372036\<rparr>) \<noteq> 0 \<and>
   sint (Timeout (NewWorker sample_runtime (sample_config\<lparr>Timeout_wc := 9223372036\<rparr>)))
     = 9223372036000000000"
  using NewWorker_timeout_seconds [of "sample_config\<lparr>Timeout_wc := 9223372036\<rparr>" sample_runtime]
  by (simp add: sample_config_def)

text \<open>
  C5, as stated, fails: the second \<^verbatim>\<open>Close\<close> on a \<^verbatim>\<open>Worker\<close> closes a channel that is closed
  already, and Go panics there.
\<close>

theorem Close_twice_panics:
  "Close (NewWorker sample_runtime sample_config)
     = Inr ((NewWorker sample_runtime sample_config)\<lparr>done_chan := ClosedChan\<rparr>) \<and>
   Close ((NewWorker sample_runtime sample_config)\<lparr>done_chan := ClosedChan\<rparr>)
     = Inl CloseOfClosedChannel"
  by (simp add: Close_def NewWorker_def)

text \<open>
  C5, amended. The first \<^verbatim>\<open>Close\<close> on a \<^verbatim>\<open>Worker\<close> that \<^verbatim>\<open>NewWorker\<close> returned does not
  panic and leaves the channel \<^verbatim>\<open>done\<close> closed; a second \<^verbatim>\<open>Close\<close> on that \<^verbatim>\<open>Worker\<close>
  panics (close of closed channel).
\<close>

theorem Close_once:
  "\<exists>w'. Close (NewWorker rt wc) = Inr w' \<and> done_chan w' = ClosedChan \<and>
        Close w' = Inl CloseOfClosedChannel"
  by (simp add: Close_def NewWorker_def)

section \<open>Reading a trace: basic facts\<close>

lemma projections_Nil [simp]:
  "acknowledged [] = []" "forwarded [] = []" "called_back [] = []" "logged [] = []"
  "requested [] = []" "pushed [] = []"
  by (simp_all add: acknowledged_def forwarded_def called_back_def logged_def requested_def pushed_def)

lemma projections_Cons [simp]:
  "acknowledged (x # xs) = acknowledges x @ acknowledged xs"
  "forwarded (x # xs) = forwards x @ forwarded xs"
  "called_back (x # xs) = callback_calls x @ called_back xs"
  "logged (x # xs) = log_entries x @ logged xs"
  "requested (x # xs) = receives x @ requested xs"
  "pushed (x # xs) = chan_sends x @ pushed xs"
  by (simp_all add: acknowledged_def forwarded_def called_back_def logged_def requested_def pushed_def)

lemma projections_append [simp]:
  "acknowledged (xs @ ys) = acknowledged xs @ acknowledged ys"
  "forwarded (xs @ ys) = forwarded xs @ forwarded ys"
  "called_back (xs @ ys) = called_back xs @ called_back ys"
  "logged (xs @ ys) = logged xs @ logged ys"
  "requested (xs @ ys) = requested xs @ requested ys"
  "pushed (xs @ ys) = pushed xs @ pushed ys"
  by (simp_all add: acknowledged_def forwarded_def called_back_def logged_def requested_def pushed_def)

lemma callback_events_projections [simp]:
  "acknowledged (callback_events w r e) = []"
  "forwarded (callback_events w r e) = []"
  "logged (callback_events w r e) = []"
  "called_back (callback_events w r e) = (if Callback w = None then [] else [(r, e)])"
  by (simp_all add: callback_events_def split: option.split)

lemma LogError_projections [simp]:
  "acknowledged (LogError w s e) = []"
  "forwarded (LogError w s e) = []"
  "called_back (LogError w s e) = []"
  "requested (LogError w s e) = []"
  "pushed (LogError w s e) = []"
  "logged (LogError w s e) = (if Logger w = None then [] else [(Name w, s, e)])"
  by (simp_all add: LogError_def)

text \<open>A trace with one \<^verbatim>\<open>DeleteMessage\<close> splits at it in one way only.\<close>

lemma acknowledged_split:
  assumes "acknowledged xs = []"
      and "xs @ DeleteMessage a # ys = us @ DeleteMessage b # vs"
      and "acknowledged ys = []"
  shows "us = xs \<and> b = a \<and> vs = ys"
  using assms
proof (induction xs arbitrary: us)
  case Nil
  then show ?case by (cases us) auto
next
  case (Cons x xs)
  then show ?case by (cases us) auto
qed

lemma sample_worker_fields [simp]:
  "QueueInUrl sample_worker = ''https://sqs/in''"
  "QueueOutUrl sample_worker = ''https://sqs/out''"
  "Logger sample_worker = Some ''production''"
  "Handler sample_worker = echo"
  "Callback sample_worker = None"
  "Name sample_worker = ''TestApp''"
  by (simp_all add: sample_worker_def NewWorker_def sample_config_def sample_runtime_def)

section \<open>Exec\<close>

text \<open>The stop-and-drain idiom blocks on exactly one state of the timer.\<close>

lemma stop_and_drain_iff [simp]: "stop_and_drain t \<longleftrightarrow> t \<noteq> Drained"
  by (cases t) (simp_all add: stop_and_drain_def Stop_def tick_waiting_def)

lemma store_fields [simp]:
  "Done (store k hp) = Done hp" "Timer (store k hp) = Timer hp"
  by (simp_all add: store_def)

lemma fold_store_fields [simp]:
  "Done (fold store ks hp) = Done hp" "Timer (fold store ks hp) = Timer hp"
  by (induction ks arbitrary: hp) simp_all

lemma expire_fields [simp]:
  "Done (expire b hp) = Done hp"
  "Timer (expire b hp) = Drained \<longleftrightarrow> Timer hp = Drained"
  by (simp_all add: expire_def)

lemma meanwhile_fields [simp]:
  "Done (meanwhile d hp) = Done hp"
  "Timer (meanwhile d hp) = Drained \<longleftrightarrow> Timer hp = Drained"
  by (simp_all add: meanwhile_def)

lemma Exec_Callback [simp]: "Exec (w\<lparr>Callback := c\<rparr>) hp r m = Exec w hp r m"
  by (simp add: Exec_def)

lemma Exec_timer:
  assumes "Exec w hp TimerReady m = Some (out, hp')"
  shows "out = ([], Some HandlerTimeout) \<and> Timer hp' = Drained"
  using assms by (auto simp: Exec_def Let_def split: if_splits)

text \<open>
  What holds of the \<^verbatim>\<open>handlerParams\<close> of a consumer at all times: a goroutine is left over
  on \<^verbatim>\<open>Done\<close> only when the timer is expired and drained. A call of \<^verbatim>\<open>Exec\<close> that returns
  keeps it so, and has found no goroutine left over.
\<close>

lemma Exec_settled:
  assumes "Exec w hp r m = Some (out, hp')" and "Done hp = [] \<or> Timer hp = Drained"
  shows "Done hp = [] \<and> (Done hp' = [] \<or> Timer hp' = Drained)"
  using assms by (cases r) (auto simp: Exec_def Let_def split: if_splits)

section \<open>The consumer, message by message\<close>

text \<open>The three ways through the body of the loop, by what \<^verbatim>\<open>Exec\<close> and SQS return.\<close>

lemma consume_handler_error:
  assumes "Exec w (meanwhile d hp) (first_ready d) (msg d) = Some ((result, Some e), hp')"
  shows "consume w hp d =
           Some (callback_events w result (Some e) @ LogError w ''handler failed!'' e, hp')"
  using assms by (simp add: consume_def callback_events_def split: option.split)

lemma consume_send_error:
  assumes "Exec w (meanwhile d hp) (first_ready d) (msg d) = Some ((result, None), hp')"
      and "QueueOutUrl w \<noteq> []" and "send_answer d = Some e"
  shows "consume w hp d =
           Some (callback_events w result None @
                 [SendMessage (QueueOutUrl w, after_callback w result None)] @
                 LogError w ''send message failed!'' e, hp')"
  using assms
  by (simp add: consume_def callback_events_def after_callback_def sendMessage_def split: option.split)

lemma consume_sent:
  assumes "Exec w (meanwhile d hp) (first_ready d) (msg d) = Some ((result, None), hp')"
      and "QueueOutUrl w = [] \<or> send_answer d = None"
  shows "consume w hp d =
           Some (callback_events w result None @
                 (if QueueOutUrl w = [] then []
                  else [SendMessage (QueueOutUrl w, after_callback w result None)]) @
                 [DeleteMessage (QueueInUrl w, ReceiptHandle (msg d))] @
                 (case delete_answer d of
                    None \<Rightarrow> []
                  | Some e \<Rightarrow> LogError w ''delete message failed!'' e), hp')"
  using assms
  by (auto simp add: consume_def callback_events_def after_callback_def sendMessage_def
        deleteMessage_def split: option.split)

lemma consume_Exec:
  assumes "consume w hp d = Some (events, hp')"
  shows "\<exists>out. Exec w (meanwhile d hp) (first_ready d) (msg d) = Some (out, hp')"
  using assms
  by (auto simp: consume_def Let_def sendMessage_def deleteMessage_def
        split: option.splits prod.splits if_splits)

lemma consume_settled:
  assumes "consume w hp d = Some (events, hp')" and "Done hp = [] \<or> Timer hp = Drained"
  shows "Done hp' = [] \<or> Timer hp' = Drained"
proof -
  from consume_Exec [OF assms(1)] obtain out
    where "Exec w (meanwhile d hp) (first_ready d) (msg d) = Some (out, hp')" ..
  moreover have "Done (meanwhile d hp) = [] \<or> Timer (meanwhile d hp) = Drained"
    using assms(2) by simp
  ultimately show ?thesis
    using Exec_settled by blast
qed

lemma consumer_loop_settled:
  assumes "consumer_loop w hp steps = (trace, st, hp')" and "Done hp = [] \<or> Timer hp = Drained"
  shows "Done hp' = [] \<or> Timer hp' = Drained"
  using assms
proof (induction steps arbitrary: hp trace st)
  case Nil
  then show ?case by simp
next
  case (Cons s steps)
  show ?case
  proof (cases s)
    case CtxDone
    with Cons.prems show ?thesis by simp
  next
    case (Receive d)
    show ?thesis
    proof (cases "consume w hp d")
      case None
      with Cons.prems Receive show ?thesis by auto
    next
      case (Some a)
      obtain events hp1 where a: "a = (events, hp1)"
        by (cases a)
      obtain tr1 st1 hp2 where r: "consumer_loop w hp1 steps = (tr1, st1, hp2)"
        by (cases "consumer_loop w hp1 steps")
      from Cons.prems(1) Receive Some a r have "hp' = hp2"
        by simp
      with r have r': "consumer_loop w hp1 steps = (tr1, st1, hp')"
        by simp
      have "Done hp1 = [] \<or> Timer hp1 = Drained"
        using consume_settled Some a Cons.prems(2) by blast
      then show ?thesis
        by (rule Cons.IH [OF r'])
    qed
  qed
qed



section \<open>Forwarding and acknowledging\<close>

text \<open>
  C1. For every message that \<^verbatim>\<open>Exec\<close> returned without an error, the consumer forwards before
  it acknowledges, never the other way round. With an outbound queue there is exactly one
  \<^verbatim>\<open>SendMessage\<close>, with none \<^verbatim>\<open>sendMessage\<close> is a no-op. \<^verbatim>\<open>DeleteMessage\<close> is called, once and
  with the receipt handle of this message, exactly when forwarding was a no-op or returned no
  error; and wherever it stands in the trace of the message, every \<^verbatim>\<open>SendMessage\<close> stands
  before it and none after it.
\<close>

theorem forward_before_acknowledge:
  assumes "Exec w (meanwhile d hp) (first_ready d) (msg d) = Some ((result, None), hp')"
  shows "\<exists>tr. consume w hp d = Some (tr, hp') \<and>
           forwarded tr =
             (if QueueOutUrl w = [] then [] else [(QueueOutUrl w, after_callback w result None)]) \<and>
           acknowledged tr =
             (if QueueOutUrl w = [] \<or> send_answer d = None
              then [(QueueInUrl w, ReceiptHandle (msg d))] else []) \<and>
           (\<forall>before x after. tr = before @ DeleteMessage x # after \<longrightarrow>
              forwarded before = forwarded tr \<and> forwarded after = [] \<and>
              acknowledged before = [] \<and> acknowledged after = [])"
proof (cases "QueueOutUrl w = [] \<or> send_answer d = None")
  case True
  let ?pre = "callback_events w result None @
     (if QueueOutUrl w = [] then [] else [SendMessage (QueueOutUrl w, after_callback w result None)])"
  let ?post = "case delete_answer d of None \<Rightarrow> [] | Some e \<Rightarrow> LogError w ''delete message failed!'' e"
  let ?tr = "?pre @ DeleteMessage (QueueInUrl w, ReceiptHandle (msg d)) # ?post"
  have c: "consume w hp d = Some (?tr, hp')"
    using consume_sent [OF assms True] by simp
  have pre: "acknowledged ?pre = []"
    by simp
  have post: "acknowledged ?post = []" "forwarded ?post = []"
    by (simp_all split: option.split)
  have order: "forwarded before = forwarded ?tr \<and> forwarded after = [] \<and>
        acknowledged before = [] \<and> acknowledged after = []"
    if "?tr = before @ DeleteMessage x # after" for before x after
  proof -
    from acknowledged_split [OF pre that post(1)] have "before = ?pre" "after = ?post"
      by simp_all
    then show ?thesis
      using post by simp
  qed
  show ?thesis
    using c True post order by (intro exI [of _ ?tr]) (simp split: option.split)
next
  case False
  then obtain e where e: "QueueOutUrl w \<noteq> []" "send_answer d = Some e"
    by auto
  let ?tr = "callback_events w result None @
                 [SendMessage (QueueOutUrl w, after_callback w result None)] @
                 LogError w ''send message failed!'' e"
  have c: "consume w hp d = Some (?tr, hp')"
    using consume_send_error [OF assms e] .
  have none: "acknowledged ?tr = []"
    by simp
  have "False" if "?tr = before @ DeleteMessage x # after" for before x after
  proof -
    from that have "acknowledged ?tr = acknowledged (before @ DeleteMessage x # after)"
      by simp
    with none show False
      by simp
  qed
  then show ?thesis
    using c e by (intro exI [of _ ?tr]) auto
qed

theorem forward_before_acknowledge_witness:
  "Exec sample_worker (meanwhile (delivered message_T1) (getHandlerParams sample_worker))
       (DoneReady 0) message_T1
     = Some ((''a'', None), \<lparr>Done = [], Result_hp = \<lparr>Result = ''a'', Err = None\<rparr>, Timer = Armed\<rparr>) \<and>
   consume sample_worker (getHandlerParams sample_worker) (delivered message_T1)
     = Some ([SendMessage (''https://sqs/out'', ''a''), DeleteMessage (''https://sqs/in'', ''T1'')],
             \<lparr>Done = [], Result_hp = \<lparr>Result = ''a'', Err = None\<rparr>, Timer = Armed\<rparr>) \<and>
   forwarded [SendMessage (''https://sqs/out'', ''a'')] = [(''https://sqs/out'', ''a'')] \<and>
   acknowledged [SendMessage (''https://sqs/out'', ''a'')] = []"
proof -
  let ?hp1 = "\<lparr>Done = [], Result_hp = \<lparr>Result = ''a'', Err = None\<rparr>, Timer = Armed\<rparr>"
  let ?d = "delivered message_T1"
  let ?tr = "[SendMessage (''https://sqs/out'', ''a''), DeleteMessage (''https://sqs/in'', ''T1'')]"
  have ex: "Exec sample_worker (meanwhile ?d (getHandlerParams sample_worker))
              (first_ready ?d) (msg ?d) = Some ((''a'', None), ?hp1)"
    by (simp add: Exec_def store_def meanwhile_def expire_def getHandlerParams_def delivered_def message_T1_def echo_def)
  from forward_before_acknowledge [OF ex] obtain tr where
    tr: "consume sample_worker (getHandlerParams sample_worker) ?d = Some (tr, ?hp1)" and
    fw: "forwarded tr = [(''https://sqs/out'', after_callback sample_worker ''a'' None)]" and
    order: "\<forall>before x after. tr = before @ DeleteMessage x # after \<longrightarrow>
              forwarded before = forwarded tr \<and> forwarded after = [] \<and>
              acknowledged before = [] \<and> acknowledged after = []"
    by auto
  have "consume sample_worker (getHandlerParams sample_worker) ?d = Some (?tr, ?hp1)"
    using ex by (simp add: consume_def sendMessage_def deleteMessage_def delivered_def message_T1_def)
  with tr have eq: "tr = [SendMessage (''https://sqs/out'', ''a'')] @
      DeleteMessage (''https://sqs/in'', ''T1'') # []"
    by simp
  from order eq have "forwarded [SendMessage (''https://sqs/out'', ''a'')] = forwarded tr \<and>
      acknowledged [SendMessage (''https://sqs/out'', ''a'')] = []"
    by blast
  with fw tr eq ex show ?thesis
    by (simp add: after_callback_def delivered_def meanwhile_def)
qed

section \<open>Timeouts\<close>

text \<open>
  A goroutine is left on \<^verbatim>\<open>Done\<close> only by the timer's case of the \<^verbatim>\<open>select\<close>, and that
  case leaves the timer expired with its tick received. \<^verbatim>\<open>Exec\<close> is the only place that
  arms the timer again, and it does so after \<^verbatim>\<open>if !hp.Timer.Stop() { <-hp.Timer.C }\<close>: on
  such a timer \<^verbatim>\<open>Stop()\<close> is \<^verbatim>\<open>false\<close> and nothing is left to receive. So after one timeout
  no call of \<^verbatim>\<open>Exec\<close> with the same \<^verbatim>\<open>handlerParams\<close> returns, whatever happens meanwhile and
  whichever case of the \<^verbatim>\<open>select\<close> would be ready.
\<close>

lemma Exec_after_timeout:
  assumes "Exec w hp TimerReady m = Some (out, hp')"
  shows "Exec w (meanwhile d hp') r m' = None"
proof -
  from Exec_timer [OF assms] have "Timer (meanwhile d hp') = Drained"
    by simp
  then show ?thesis
    by (simp add: Exec_def)
qed

lemma consume_after_timeout:
  assumes "Exec w hp TimerReady m = Some (out, hp')"
  shows "consume w hp' d = None"
  using Exec_after_timeout [OF assms, of d "first_ready d" "msg d"]
  by (simp add: consume_def)

text \<open>
  C2 (for every message whose handler exceeds the timeout \<^verbatim>\<open>Exec\<close> returns
  \<^verbatim>\<open>HandlerTimeout\<close>, and the late outcome of the handler has no effect on the worker
  afterwards, in particular it is never returned by a later call of \<^verbatim>\<open>Exec\<close>) is not what the
  code does after the first timeout of a consumer. The first message whose handler exceeds the
  timeout gets \<^verbatim>\<open>HandlerTimeout\<close> from \<^verbatim>\<open>Exec\<close>, and its goroutine stays behind. When that
  goroutine is through, it writes the late outcome into \<^verbatim>\<open>hp.Result\<close>, which the consumer
  owns, and then waits on \<^verbatim>\<open>hp.Done\<close> for ever. The late outcome is never returned by a later
  call of \<^verbatim>\<open>Exec\<close>, but only because no later call returns anything: for the next message,
  here \<open>T2\<close> with a handler that would exceed the timeout as well, \<^verbatim>\<open>Exec\<close> blocks in
  \<^verbatim>\<open><-hp.Timer.C\<close> before it calls the handler, and there is no \<^verbatim>\<open>HandlerTimeout\<close> for it. The
  same holds if the goroutine left behind is ready to deliver, and if the handler of \<open>T2\<close>
  would be in time.
\<close>

theorem Exec_blocks_after_timeout:
  "Exec sample_worker
       (meanwhile ((delivered message_T1)\<lparr>first_ready := TimerReady\<rparr>) (getHandlerParams sample_worker))
       TimerReady message_T1
     = Some (([], Some HandlerTimeout),
             \<lparr>Done = [\<lparr>Result = ''a'', Err = None\<rparr>], Result_hp = \<lparr>Result = [], Err = None\<rparr>,
              Timer = Drained\<rparr>) \<and>
   meanwhile ((delivered message_T2)\<lparr>late := [0], first_ready := TimerReady\<rparr>)
       \<lparr>Done = [\<lparr>Result = ''a'', Err = None\<rparr>], Result_hp = \<lparr>Result = [], Err = None\<rparr>, Timer = Drained\<rparr>
     = \<lparr>Done = [\<lparr>Result = ''a'', Err = None\<rparr>], Result_hp = \<lparr>Result = ''a'', Err = None\<rparr>,
        Timer = Drained\<rparr> \<and>
   Exec sample_worker
       \<lparr>Done = [\<lparr>Result = ''a'', Err = None\<rparr>], Result_hp = \<lparr>Result = ''a'', Err = None\<rparr>,
        Timer = Drained\<rparr>
       TimerReady message_T2
     = None \<and>
   Exec sample_worker
       \<lparr>Done = [\<lparr>Result = ''a'', Err = None\<rparr>], Result_hp = \<lparr>Result = ''a'', Err = None\<rparr>,
        Timer = Drained\<rparr>
       (DoneReady 0) message_T2
     = None \<and>
   Exec sample_worker
       \<lparr>Done = [\<lparr>Result = ''a'', Err = None\<rparr>], Result_hp = \<lparr>Result = ''a'', Err = None\<rparr>,
        Timer = Drained\<rparr>
       (DoneReady 1) message_T2
     = None"
  by (simp add: Exec_def store_def meanwhile_def expire_def getHandlerParams_def delivered_def
        message_T1_def echo_def)

section \<open>Errors of the handler and of forwarding\<close>

text \<open>
  When \<^verbatim>\<open>Exec\<close> returns an error, the consumer calls neither \<^verbatim>\<open>SendMessage\<close> nor
  \<^verbatim>\<open>DeleteMessage\<close> for the message: it logs the error as \<open>handler failed!\<close> and takes the
  next turn of its loop (\<open>consume_handler_error\<close>). When the error is \<^verbatim>\<open>HandlerTimeout\<close>, that
  next turn is the consumer's last: if a message comes, \<^verbatim>\<open>Exec\<close> never returns, the message
  is not handled, and nothing that follows is seen, a cancelled context included.
\<close>

lemma consumer_loop_after_timeout:
  assumes "Exec w (meanwhile d hp) (first_ready d) (msg d) = Some ((result, Some e), hp')"
      and "first_ready d = TimerReady"
  shows "consumer_loop w hp (Receive d # Receive d' # rest) =
           (callback_events w result (Some e) @ LogError w ''handler failed!'' e, Blocked,
            meanwhile d' hp')"
proof -
  from assms have "Exec w (meanwhile d hp) TimerReady (msg d) = Some ((result, Some e), hp')"
    by simp
  then have "consume w hp' d' = None"
    by (rule consume_after_timeout)
  with consume_handler_error [OF assms(1)] show ?thesis
    by simp
qed

text \<open>
  C3 (a message for which the handler returns an error, a timeout included, is never
  acknowledged: the worker logs the error and continues to the next message) is not what the
  code does where the error is a timeout. A consumer whose handler
  returns an error for \<open>T1\<close> logs it, goes on to \<open>T2\<close>, logs again, and returns when the
  context is done; neither message is acknowledged. A consumer whose handler exceeds the
  timeout on \<open>T1\<close> logs \<^verbatim>\<open>HandlerTimeout\<close> and does not acknowledge \<open>T1\<close>, but it does not go on
  to the next message: it receives \<open>T2\<close> and blocks in \<^verbatim>\<open>Exec\<close>, so \<open>T2\<close> leaves no event and
  the cancellation after it is never seen.
\<close>

theorem timeout_stops_consumer:
  "consumer (sample_worker\<lparr>Handler := refuse\<rparr>)
       [Receive (delivered message_T1), Receive (delivered message_T2), CtxDone]
     = ([LoggerError ''TestApp'' ''handler failed!'' (Failure ''refused''),
         LoggerError ''TestApp'' ''handler failed!'' (Failure ''refused'')], Returned,
        \<lparr>Done = [], Result_hp = \<lparr>Result = [], Err = Some (Failure ''refused'')\<rparr>, Timer = Armed\<rparr>) \<and>
   consumer sample_worker
       [Receive ((delivered message_T1)\<lparr>first_ready := TimerReady\<rparr>), Receive (delivered message_T2),
        CtxDone]
     = ([LoggerError ''TestApp'' ''handler failed!'' HandlerTimeout], Blocked,
        \<lparr>Done = [\<lparr>Result = ''a'', Err = None\<rparr>], Result_hp = \<lparr>Result = [], Err = None\<rparr>,
         Timer = Drained\<rparr>)"
  by (simp add: consumer_def consume_def Exec_def store_def meanwhile_def expire_def
        getHandlerParams_def delivered_def message_T1_def message_T2_def echo_def refuse_def
        LogError_def)

text \<open>
  C4. For every message that the handler dealt with and for which \<^verbatim>\<open>SendMessage\<close> returns an
  error, the consumer logs the error as \<open>send message failed!\<close> and goes on with the next turn
  of its loop; \<^verbatim>\<open>DeleteMessage\<close> is not called.
\<close>

theorem forward_error_not_acknowledged:
  assumes "Exec w (meanwhile d hp) (first_ready d) (msg d) = Some ((result, None), hp')"
      and "QueueOutUrl w \<noteq> []" and "send_answer d = Some e"
  shows "\<exists>tr. consume w hp d = Some (tr, hp') \<and>
           forwarded tr = [(QueueOutUrl w, after_callback w result None)] \<and>
           acknowledged tr = [] \<and>
           logged tr = (if Logger w = None then [] else [(Name w, ''send message failed!'', e)]) \<and>
           consumer_loop w hp (Receive d # rest) =
             (case consumer_loop w hp' rest of (trace, st, hp'') \<Rightarrow> (tr @ trace, st, hp''))"
  using consume_send_error [OF assms]
  by simp

theorem forward_error_not_acknowledged_witness:
  "Exec sample_worker (meanwhile (delivered message_T2) (getHandlerParams sample_worker))
       (DoneReady 0) message_T2
     = Some ((''b'', None), \<lparr>Done = [], Result_hp = \<lparr>Result = ''b'', Err = None\<rparr>, Timer = Armed\<rparr>) \<and>
   QueueOutUrl sample_worker \<noteq> [] \<and>
   consume sample_worker (getHandlerParams sample_worker)
       ((delivered message_T2)\<lparr>send_answer := Some (Failure ''unavailable'')\<rparr>)
     = Some ([SendMessage (''https://sqs/out'', ''b''),
              LoggerError ''TestApp'' ''send message failed!'' (Failure ''unavailable'')],
             \<lparr>Done = [], Result_hp = \<lparr>Result = ''b'', Err = None\<rparr>, Timer = Armed\<rparr>) \<and>
   acknowledged [SendMessage (''https://sqs/out'', ''b''),
                 LoggerError ''TestApp'' ''send message failed!'' (Failure ''unavailable'')] = []"
proof -
  let ?hp1 = "\<lparr>Done = [], Result_hp = \<lparr>Result = ''b'', Err = None\<rparr>, Timer = Armed\<rparr>"
  let ?d = "(delivered message_T2)\<lparr>send_answer := Some (Failure ''unavailable'')\<rparr>"
  let ?tr = "[SendMessage (''https://sqs/out'', ''b''),
              LoggerError ''TestApp'' ''send message failed!'' (Failure ''unavailable'')]"
  have ex: "Exec sample_worker (meanwhile ?d (getHandlerParams sample_worker))
              (first_ready ?d) (msg ?d) = Some ((''b'', None), ?hp1)"
    by (simp add: Exec_def store_def meanwhile_def expire_def getHandlerParams_def delivered_def message_T2_def echo_def)
  have out: "QueueOutUrl sample_worker \<noteq> []"
    by simp
  have ans: "send_answer ?d = Some (Failure ''unavailable'')"
    by simp
  from forward_error_not_acknowledged [OF ex out ans] obtain tr where
    tr: "consume sample_worker (getHandlerParams sample_worker) ?d = Some (tr, ?hp1)" and
    ack: "acknowledged tr = []"
    by auto
  have "consume sample_worker (getHandlerParams sample_worker) ?d = Some (?tr, ?hp1)"
    using ex by (simp add: consume_def sendMessage_def LogError_def)
  with tr have "tr = ?tr"
    by simp
  with tr ack ex show ?thesis
    by (simp add: delivered_def meanwhile_def)
qed

section \<open>The callback\<close>

lemma answered_by_fields [simp]:
  "msg (answered_by sqs w hp d) = msg d"
  "first_ready (answered_by sqs w hp d) = first_ready d"
  "delete_answer (answered_by sqs w hp d) = delete_answer d"
  "meanwhile (answered_by sqs w hp d) hp0 = meanwhile d hp0"
  by (simp_all add: answered_by_def meanwhile_def split: option.split prod.split)





section \<open>The producer\<close>

lemma map_ChanSend_projections [simp]:
  "requested (map ChanSend ms) = []" "pushed (map ChanSend ms) = ms" "logged (map ChanSend ms) = []"
  by (induction ms) simp_all

lemma fetch_projections:
  "requested (fst (fetch w p)) = [receive_params w]"
  "pushed (fst (fetch w p)) =
     (case response p of Inl err \<Rightarrow> [] | Inr messages \<Rightarrow> take (room p) messages)"
  by (simp_all add: fetch_def split: sum.split)

lemma producer_error_step:
  assumes "\<not> ctx_done p" and "response p = Inl e"
  shows "producer w (p # ps) =
           (ReceiveMessage (receive_params w) # LogError w ''recieve messages failed!'' e @
              fst (producer w ps),
            snd (producer w ps))"
  using assms by (simp add: fetch_def split: prod.split)

lemma producer_Returned:
  "snd (producer w ps) = Returned \<Longrightarrow> \<exists>p\<in>set ps. ctx_done p"
proof (induction ps)
  case Nil
  then show ?case by simp
next
  case (Cons p ps)
  then show ?case
    by (auto split: if_splits prod.splits bool.splits)
qed

lemma producer_errors_Running:
  "\<forall>p\<in>set ps. \<not> ctx_done p \<and> isl (response p) \<Longrightarrow> snd (producer w ps) = Running"
proof (induction ps)
  case Nil
  then show ?case by simp
next
  case (Cons p ps)
  then obtain e where "response p = Inl e"
    by (auto simp: isl_def)
  with Cons.prems have "producer w (p # ps) =
           (ReceiveMessage (receive_params w) # LogError w ''recieve messages failed!'' e @
              fst (producer w ps),
            snd (producer w ps))"
    by (intro producer_error_step) simp_all
  with Cons show ?case
    by (simp del: producer.simps)
qed

lemma producer_errors_logged:
  "\<forall>p\<in>set ps. \<not> ctx_done p \<and> isl (response p) \<Longrightarrow>
   logged (fst (producer w ps)) =
     (if Logger w = None then []
      else map (\<lambda>p. (Name w, ''recieve messages failed!'', projl (response p))) ps)"
proof (induction ps)
  case Nil
  then show ?case by simp
next
  case (Cons p ps)
  then obtain e where e: "response p = Inl e"
    by (auto simp: isl_def)
  with Cons.prems have "producer w (p # ps) =
           (ReceiveMessage (receive_params w) # LogError w ''recieve messages failed!'' e @
              fst (producer w ps),
            snd (producer w ps))"
    by (intro producer_error_step) simp_all
  with Cons e show ?case
    by (simp del: producer.simps)
qed

text \<open>
  C7. A failed fetch is logged as \<open>recieve messages failed!\<close> (\<^verbatim>\<open>LogError\<close> writes when the
  \<^verbatim>\<open>Worker\<close> has a logger) and the producer goes on with the next turn of its loop. The producer
  returns only on a turn that finds the context done: however many fetches fail in a row,
  it is still running after them, with one log entry for each.
\<close>

theorem fetch_error_not_fatal:
  "(\<not> ctx_done p \<and> response p = Inl e \<longrightarrow>
      producer w (p # ps) =
        (ReceiveMessage (receive_params w) # LogError w ''recieve messages failed!'' e @
           fst (producer w ps),
         snd (producer w ps))) \<and>
   (snd (producer w ps) = Returned \<longrightarrow> (\<exists>p\<in>set ps. ctx_done p)) \<and>
   ((\<forall>p\<in>set ps. \<not> ctx_done p \<and> isl (response p)) \<longrightarrow>
      snd (producer w ps) = Running \<and>
      logged (fst (producer w ps)) =
        (if Logger w = None then []
         else map (\<lambda>p. (Name w, ''recieve messages failed!'', projl (response p))) ps))"
  using producer_error_step [of p e w ps] producer_Returned [of w ps]
    producer_errors_Running [of ps w] producer_errors_logged [of ps w]
  by blast

theorem fetch_error_not_fatal_witness:
  "producer sample_worker [failed_poll ''timeout'', failed_poll ''throttled'']
     = ([ReceiveMessage (''https://sqs/in'', 1, 60, 20),
         LoggerError ''TestApp'' ''recieve messages failed!'' (Failure ''timeout''),
         ReceiveMessage (''https://sqs/in'', 1, 60, 20),
         LoggerError ''TestApp'' ''recieve messages failed!'' (Failure ''throttled'')], Running) \<and>
   producer sample_worker [failed_poll ''timeout'', cancelled_poll]
     = ([ReceiveMessage (''https://sqs/in'', 1, 60, 20),
         LoggerError ''TestApp'' ''recieve messages failed!'' (Failure ''timeout'')], Returned) \<and>
   ctx_done cancelled_poll"
proof -
  let ?a = "failed_poll ''timeout''"
  let ?b = "failed_poll ''throttled''"
  have fails: "\<forall>p\<in>set [?a, ?b]. \<not> ctx_done p \<and> isl (response p)"
    by (simp add: failed_poll_def)
  have a: "\<not> ctx_done ?a \<and> response ?a = Inl (Failure ''timeout'')"
    by (simp add: failed_poll_def)
  have b: "\<not> ctx_done ?b \<and> response ?b = Inl (Failure ''throttled'')"
    by (simp add: failed_poll_def)
  have params: "receive_params sample_worker = (''https://sqs/in'', 1, 60, 20)"
    by (simp add: receive_params_def MaxNumberOfMessages_def VisibilityTimeout_def WaitTimeSeconds_def)
  from fetch_error_not_fatal [of ?a "Failure ''timeout''" sample_worker "[?b]"] a
  have 1: "producer sample_worker [?a, ?b] =
        (ReceiveMessage (receive_params sample_worker) #
         LogError sample_worker ''recieve messages failed!'' (Failure ''timeout'') @
           fst (producer sample_worker [?b]),
         snd (producer sample_worker [?b]))"
    by blast
  from fetch_error_not_fatal [of ?b "Failure ''throttled''" sample_worker "[]"] b
  have 2: "producer sample_worker [?b] =
        (ReceiveMessage (receive_params sample_worker) #
         LogError sample_worker ''recieve messages failed!'' (Failure ''throttled'') @
           fst (producer sample_worker []),
         snd (producer sample_worker []))"
    by blast
  from fetch_error_not_fatal [of ?a "Failure ''timeout''" sample_worker "[?a, ?b]"] fails
  have 3: "snd (producer sample_worker [?a, ?b]) = Running"
    by blast
  from fetch_error_not_fatal [of ?a "Failure ''timeout''" sample_worker "[cancelled_poll]"] a
  have 4: "producer sample_worker [?a, cancelled_poll] =
        (ReceiveMessage (receive_params sample_worker) #
         LogError sample_worker ''recieve messages failed!'' (Failure ''timeout'') @
           fst (producer sample_worker [cancelled_poll]),
         snd (producer sample_worker [cancelled_poll]))"
    by blast
  have 5: "producer sample_worker [cancelled_poll] = ([], Returned)"
    by (simp add: cancelled_poll_def)
  have 6: "ctx_done cancelled_poll"
    by (simp add: cancelled_poll_def)
  have 7: "producer sample_worker [] = ([], Running)"
    by simp
  from 1 2 3 4 5 6 7 params show ?thesis
    by (simp del: producer.simps add: LogError_def)
qed

lemma producer_requested:
  "set (requested (fst (producer w ps))) \<subseteq> {receive_params w}"
proof (induction ps)
  case Nil
  then show ?case by simp
next
  case (Cons p ps)
  have "requested (fst (fetch w p)) = [receive_params w]"
    by (rule fetch_projections)
  with Cons show ?case
    by (auto split: prod.splits bool.splits)
qed

lemma producer_pushed:
  "\<forall>p\<in>set ps. \<forall>ms. response p = Inr ms \<longrightarrow> length ms \<le> unat MaxNumberOfMessages \<Longrightarrow>
   length (pushed (fst (producer w ps))) \<le> length (requested (fst (producer w ps)))"
proof (induction ps)
  case Nil
  then show ?case by simp
next
  case (Cons p ps)
  have r: "requested (fst (fetch w p)) = [receive_params w]"
    by (rule fetch_projections)
  have "length (pushed (fst (fetch w p))) \<le> 1"
    using Cons.prems by (auto simp: fetch_projections MaxNumberOfMessages_def split: sum.split)
  with r Cons show ?case
    by (auto split: prod.splits bool.splits)
qed

text \<open>
  C10. Every receive request of the producer carries the same input: the inbound queue,
  \<^verbatim>\<open>MaxNumberOfMessages\<close> 1, \<^verbatim>\<open>VisibilityTimeout\<close> 60 and \<^verbatim>\<open>WaitTimeSeconds\<close> 20, none of them
  taken from the configuration. The producer puts on the channel what the response holds; when
  SQS keeps to the \<^verbatim>\<open>MaxNumberOfMessages\<close> it was asked for, a fetch pushes at most one
  message, and a run pushes no more messages than it made requests.
\<close>

theorem one_message_per_request:
  "receive_params w = (QueueInUrl w, 1, 60, 20) \<and>
   requested (fst (fetch w p)) = [receive_params w] \<and>
   set (requested (fst (producer w ps))) \<subseteq> {receive_params w} \<and>
   (\<forall>ms. response p = Inr ms \<and> length ms \<le> unat MaxNumberOfMessages \<longrightarrow>
      length (pushed (fst (fetch w p))) \<le> 1) \<and>
   ((\<forall>p\<in>set ps. \<forall>ms. response p = Inr ms \<longrightarrow> length ms \<le> unat MaxNumberOfMessages) \<longrightarrow>
      length (pushed (fst (producer w ps))) \<le> length (requested (fst (producer w ps))))"
proof -
  have "receive_params w = (QueueInUrl w, 1, 60, 20)"
    by (simp add: receive_params_def MaxNumberOfMessages_def VisibilityTimeout_def WaitTimeSeconds_def)
  moreover have "\<forall>ms. response p = Inr ms \<and> length ms \<le> unat MaxNumberOfMessages \<longrightarrow>
      length (pushed (fst (fetch w p))) \<le> 1"
    by (auto simp add: fetch_projections MaxNumberOfMessages_def)
  ultimately show ?thesis
    using fetch_projections(1) [of w p] producer_requested [of w ps] producer_pushed [of ps w]
    by blast
qed

theorem one_message_per_request_witness:
  "response (answered_poll [message_T1]) = Inr [message_T1] \<and>
   length [message_T1] \<le> unat MaxNumberOfMessages \<and>
   fetch sample_worker (answered_poll [message_T1])
     = ([ReceiveMessage (''https://sqs/in'', 1, 60, 20), ChanSend message_T1], True) \<and>
   length (pushed (fst (fetch sample_worker (answered_poll [message_T1])))) \<le> 1 \<and>
   producer sample_worker [answered_poll [message_T1], answered_poll [], answered_poll [message_T2]]
     = ([ReceiveMessage (''https://sqs/in'', 1, 60, 20), ChanSend message_T1,
         ReceiveMessage (''https://sqs/in'', 1, 60, 20),
         ReceiveMessage (''https://sqs/in'', 1, 60, 20), ChanSend message_T2], Running) \<and>
   length (pushed (fst (producer sample_worker
       [answered_poll [message_T1], answered_poll [], answered_poll [message_T2]])))
     \<le> length (requested (fst (producer sample_worker
       [answered_poll [message_T1], answered_poll [], answered_poll [message_T2]])))"
proof -
  let ?p = "answered_poll [message_T1]"
  let ?ps = "[answered_poll [message_T1], answered_poll [], answered_poll [message_T2]]"
  have one: "response ?p = Inr [message_T1] \<and> length [message_T1] \<le> unat MaxNumberOfMessages"
    by (simp add: answered_poll_def MaxNumberOfMessages_def)
  have all: "\<forall>p\<in>set ?ps. \<forall>ms. response p = Inr ms \<longrightarrow> length ms \<le> unat MaxNumberOfMessages"
    by (simp add: answered_poll_def MaxNumberOfMessages_def)
  from one_message_per_request [of sample_worker ?p ?ps] one all
  have "length (pushed (fst (fetch sample_worker ?p))) \<le> 1"
    and "length (pushed (fst (producer sample_worker ?ps)))
           \<le> length (requested (fst (producer sample_worker ?ps)))"
    by blast+
  moreover have "fetch sample_worker ?p
      = ([ReceiveMessage (''https://sqs/in'', 1, 60, 20), ChanSend message_T1], True)"
    by (simp add: fetch_def answered_poll_def receive_params_def MaxNumberOfMessages_def
          VisibilityTimeout_def WaitTimeSeconds_def)
  moreover have "producer sample_worker ?ps
      = ([ReceiveMessage (''https://sqs/in'', 1, 60, 20), ChanSend message_T1,
          ReceiveMessage (''https://sqs/in'', 1, 60, 20),
          ReceiveMessage (''https://sqs/in'', 1, 60, 20), ChanSend message_T2], Running)"
    by (simp add: fetch_def answered_poll_def receive_params_def MaxNumberOfMessages_def
          VisibilityTimeout_def WaitTimeSeconds_def)
  ultimately show ?thesis
    using one by simp
qed

end
